theory Spec2Isabelle
  imports Main "HOL-Library.Word"
begin

section \<open>The platform: property store, supervisor replies, call log\<close>

text \<open>
  \<^verbatim>\<open>hostapd_manager.cpp\<close> talks to the platform through three calls that are not part
  of the file: \<^verbatim>\<open>property_get\<close>, \<^verbatim>\<open>property_set\<close> (libcutils) and \<^verbatim>\<open>LOG\<close>
  (android-base). They are modelled as operations on an explicit platform state:
  \<^item> \<open>properties\<close> is the key-value store;
  \<^item> \<open>set_result\<close> is the \<^verbatim>\<open>int\<close> that \<^verbatim>\<open>property_set\<close> returns for a key and a
    value; it is a parameter, so every theorem holds for every reply of the supervisor;
  \<^item> \<open>events\<close> records, in order, every call made to the platform.
  A C \<^verbatim>\<open>int\<close> is a 32-bit word, read as two's complement (\<open>sint\<close>, \<open><s\<close>).
  A C string is the list of its characters before the terminating NUL.
\<close>

type_synonym c_int = "32 word"

datatype severity = DEBUG | ERROR

datatype event =
    PropertyGet string string
  | PropertySet string string
  | Log severity string

record platform =
  properties :: "string \<rightharpoonup> string"
  set_result :: "string \<Rightarrow> string \<Rightarrow> c_int"
  events :: "event list"

definition PROPERTY_VALUE_MAX :: nat where
  "PROPERTY_VALUE_MAX = 92"

text \<open>
  \<^verbatim>\<open>property_get(key, value, default_value)\<close> fills the buffer with the stored value;
  when the property is absent or empty it copies the default (at most
  \<^verbatim>\<open>PROPERTY_VALUE_MAX - 1\<close> characters of it). The result is the buffer's content.
\<close>

definition property_get :: "string \<Rightarrow> string \<Rightarrow> platform \<Rightarrow> string \<times> platform" where
  "property_get key default_value s =
     (let stored = (case properties s key of None \<Rightarrow> [] | Some v \<Rightarrow> v);
          buf = (if 0 < length stored then stored
                 else take (PROPERTY_VALUE_MAX - 1) default_value)
      in (buf, s\<lparr>events := events s @ [PropertyGet key default_value]\<rparr>))"

text \<open>
  \<^verbatim>\<open>property_set(key, value)\<close> returns the supervisor's reply; a reply of 0 means the
  write was accepted, and the store then holds the value under the key.
\<close>

definition property_set :: "string \<Rightarrow> string \<Rightarrow> platform \<Rightarrow> c_int \<times> platform" where
  "property_set key v s =
     (let rc = set_result s key v;
          s' = s\<lparr>events := events s @ [PropertySet key v]\<rparr>
      in (rc, if rc = 0 then s'\<lparr>properties := (properties s)(key \<mapsto> v)\<rparr> else s'))"

definition LOG :: "severity \<Rightarrow> string \<Rightarrow> platform \<Rightarrow> platform" where
  "LOG sev msg s = s\<lparr>events := events s @ [Log sev msg]\<rparr>"

text \<open>\<^verbatim>\<open>strcmp\<close>: only the sign of the result is specified by C.\<close>

fun strcmp :: "string \<Rightarrow> string \<Rightarrow> c_int" where
  "strcmp [] [] = 0"
| "strcmp [] (y # ys) = -1"
| "strcmp (x # xs) [] = 1"
| "strcmp (x # xs) (y # ys) =
     (if x = y then strcmp xs ys
      else if (of_char x :: nat) < of_char y then -1 else 1)"

definition strlen :: "string \<Rightarrow> nat" where
  "strlen s = length s"

section \<open>hostapd\_manager.cpp\<close>

definition kHostapdServiceName :: string where
  "kHostapdServiceName = ''hostapd''"

definition kHostapdFullServiceName :: string where
  "kHostapdFullServiceName = ''init.svc.hostapd''"

definition StartHostapd :: "platform \<Rightarrow> bool \<times> platform" where
  "StartHostapd s0 =
     (case property_get kHostapdFullServiceName '''' s0 of
        (hostapd_status, s1) \<Rightarrow>
          if strcmp hostapd_status ''running'' = 0 then
            (True, LOG DEBUG ''SoftAP already started. Skip another start'' s1)
          else
            (case property_set ''ctl.start'' kHostapdServiceName s1 of
               (rc, s2) \<Rightarrow>
                 if rc \<noteq> 0 then (False, LOG ERROR ''Failed to start SoftAP'' s2)
                 else (True, LOG DEBUG ''SoftAP started successfully'' s2)))"

definition StopHostapd :: "platform \<Rightarrow> bool \<times> platform" where
  "StopHostapd s0 =
     (let s1 = LOG DEBUG ''Stopping the SoftAP service...'' s0 in
      case property_get kHostapdFullServiceName '''' s1 of
        (hostapd_status, s2) \<Rightarrow>
          if \<not> (strlen hostapd_status \<noteq> 0) \<or> strcmp hostapd_status ''stopped'' = 0 then
            (True, LOG DEBUG ''SoftAP already stopped. Skip another stop'' s2)
          else
            (case property_set ''ctl.stop'' kHostapdServiceName s2 of
               (rc, s3) \<Rightarrow>
                 if rc <s 0 then (False, LOG ERROR ''Failed to stop hostapd service!'' s3)
                 else (True, LOG DEBUG ''SoftAP stopped successfully'' s3)))"

section \<open>Observations of one call\<close>

text \<open>The platform calls made by one call of an operation, in order.\<close>

definition trace :: "(platform \<Rightarrow> bool \<times> platform) \<Rightarrow> platform \<Rightarrow> event list" where
  "trace f s = drop (length (events s)) (events (snd (f s)))"

fun writes_of :: "event list \<Rightarrow> (string \<times> string) list" where
  "writes_of [] = []"
| "writes_of (PropertySet k v # es) = (k, v) # writes_of es"
| "writes_of (PropertyGet k d # es) = writes_of es"
| "writes_of (Log sev msg # es) = writes_of es"

fun reads_of :: "event list \<Rightarrow> (string \<times> string) list" where
  "reads_of [] = []"
| "reads_of (PropertyGet k d # es) = (k, d) # reads_of es"
| "reads_of (PropertySet k v # es) = reads_of es"
| "reads_of (Log sev msg # es) = reads_of es"

text \<open>What the status read of a call returns on a platform.\<close>

definition status_read :: "platform \<Rightarrow> string" where
  "status_read s = fst (property_get kHostapdFullServiceName '''' s)"

section \<open>Example platforms\<close>

text \<open>A platform whose store holds the given status and whose supervisor always replies \<open>rc\<close>.\<close>

definition platform_with :: "string \<Rightarrow> c_int \<Rightarrow> platform" where
  "platform_with st rc =
     \<lparr>properties = [kHostapdFullServiceName \<mapsto> st], set_result = (\<lambda>k v. rc), events = []\<rparr>"

text \<open>A platform on which the status property was never set.\<close>

definition platform_unset :: "c_int \<Rightarrow> platform" where
  "platform_unset rc = \<lparr>properties = Map.empty, set_result = (\<lambda>k v. rc), events = []\<rparr>"

text \<open>
  A platform that differs from \<open>platform_with ''restarting'' 0\<close> in everything but the
  status and the replies to the two control writes: another property is set, other
  writes are rejected, and the log is not empty.
\<close>

definition platform_busy :: platform where
  "platform_busy =
     \<lparr>properties = [kHostapdFullServiceName \<mapsto> ''restarting'',
                    ''wifi.interface'' \<mapsto> ''wlan0''],
      set_result = (\<lambda>k v. if k = ''ctl.start'' \<or> k = ''ctl.stop'' then 0 else - 1),
      events = [Log DEBUG ''boot'']\<rparr>"

section \<open>Basic facts\<close>

lemma strcmp_eq_0_iff: "strcmp a b = 0 \<longleftrightarrow> a = b"
  by (induction a b rule: strcmp.induct) auto

lemma property_get_eq:
  "property_get key d s =
     (fst (property_get key d s), s\<lparr>events := events s @ [PropertyGet key d]\<rparr>)"
  by (simp add: property_get_def Let_def)

lemma fst_property_get_events:
  "fst (property_get key d (s\<lparr>events := es\<rparr>)) = fst (property_get key d s)"
  by (simp add: property_get_def Let_def)

lemma status_read_LOG: "status_read (LOG sev msg s) = status_read s"
  by (simp add: status_read_def LOG_def fst_property_get_events)

lemma StartHostapd_eq:
  "StartHostapd s =
     (if status_read s = ''running'' then
        (True, s\<lparr>events := events s @
           [PropertyGet ''init.svc.hostapd'' [],
            Log DEBUG ''SoftAP already started. Skip another start'']\<rparr>)
      else if set_result s ''ctl.start'' ''hostapd'' \<noteq> 0 then
        (False, s\<lparr>events := events s @
           [PropertyGet ''init.svc.hostapd'' [],
            PropertySet ''ctl.start'' ''hostapd'',
            Log ERROR ''Failed to start SoftAP'']\<rparr>)
      else
        (True, s\<lparr>properties := (properties s)(''ctl.start'' \<mapsto> ''hostapd''),
                 events := events s @
           [PropertyGet ''init.svc.hostapd'' [],
            PropertySet ''ctl.start'' ''hostapd'',
            Log DEBUG ''SoftAP started successfully'']\<rparr>))"
  unfolding StartHostapd_def status_read_def
  by (subst property_get_eq)
     (simp add: property_set_def LOG_def Let_def strcmp_eq_0_iff
        kHostapdFullServiceName_def kHostapdServiceName_def)

lemma StopHostapd_eq:
  "StopHostapd s =
     (if status_read s = [] \<or> status_read s = ''stopped'' then
        (True, s\<lparr>events := events s @
           [Log DEBUG ''Stopping the SoftAP service...'',
            PropertyGet ''init.svc.hostapd'' [],
            Log DEBUG ''SoftAP already stopped. Skip another stop'']\<rparr>)
      else if set_result s ''ctl.stop'' ''hostapd'' <s 0 then
        (False, s\<lparr>events := events s @
           [Log DEBUG ''Stopping the SoftAP service...'',
            PropertyGet ''init.svc.hostapd'' [],
            PropertySet ''ctl.stop'' ''hostapd'',
            Log ERROR ''Failed to stop hostapd service!'']\<rparr>)
      else if set_result s ''ctl.stop'' ''hostapd'' = 0 then
        (True, s\<lparr>properties := (properties s)(''ctl.stop'' \<mapsto> ''hostapd''),
                 events := events s @
           [Log DEBUG ''Stopping the SoftAP service...'',
            PropertyGet ''init.svc.hostapd'' [],
            PropertySet ''ctl.stop'' ''hostapd'',
            Log DEBUG ''SoftAP stopped successfully'']\<rparr>)
      else
        (True, s\<lparr>events := events s @
           [Log DEBUG ''Stopping the SoftAP service...'',
            PropertyGet ''init.svc.hostapd'' [],
            PropertySet ''ctl.stop'' ''hostapd'',
            Log DEBUG ''SoftAP stopped successfully'']\<rparr>))"
  unfolding StopHostapd_def status_read_def Let_def
  by (subst property_get_eq)
     (simp add: property_set_def LOG_def Let_def strcmp_eq_0_iff strlen_def
        fst_property_get_events
        kHostapdFullServiceName_def kHostapdServiceName_def)

subsection \<open>What one call does, read off the two characterisations\<close>

lemma trace_StartHostapd:
  "trace StartHostapd s =
     (if status_read s = ''running'' then
        [PropertyGet ''init.svc.hostapd'' [],
         Log DEBUG ''SoftAP already started. Skip another start'']
      else if set_result s ''ctl.start'' ''hostapd'' \<noteq> 0 then
        [PropertyGet ''init.svc.hostapd'' [],
         PropertySet ''ctl.start'' ''hostapd'',
         Log ERROR ''Failed to start SoftAP'']
      else
        [PropertyGet ''init.svc.hostapd'' [],
         PropertySet ''ctl.start'' ''hostapd'',
         Log DEBUG ''SoftAP started successfully''])"
  by (simp add: trace_def StartHostapd_eq)

lemma trace_StopHostapd:
  "trace StopHostapd s =
     (if status_read s = [] \<or> status_read s = ''stopped'' then
        [Log DEBUG ''Stopping the SoftAP service...'',
         PropertyGet ''init.svc.hostapd'' [],
         Log DEBUG ''SoftAP already stopped. Skip another stop'']
      else if set_result s ''ctl.stop'' ''hostapd'' <s 0 then
        [Log DEBUG ''Stopping the SoftAP service...'',
         PropertyGet ''init.svc.hostapd'' [],
         PropertySet ''ctl.stop'' ''hostapd'',
         Log ERROR ''Failed to stop hostapd service!'']
      else
        [Log DEBUG ''Stopping the SoftAP service...'',
         PropertyGet ''init.svc.hostapd'' [],
         PropertySet ''ctl.stop'' ''hostapd'',
         Log DEBUG ''SoftAP stopped successfully''])"
  by (simp add: trace_def StopHostapd_eq)

lemma result_StartHostapd:
  "fst (StartHostapd s) \<longleftrightarrow>
     status_read s = ''running'' \<or> set_result s ''ctl.start'' ''hostapd'' = 0"
  by (simp add: StartHostapd_eq)

lemma result_StopHostapd:
  "fst (StopHostapd s) \<longleftrightarrow>
     status_read s = [] \<or> status_read s = ''stopped'' \<or>
     \<not> set_result s ''ctl.stop'' ''hostapd'' <s 0"
  by (simp add: StopHostapd_eq)

lemma writes_StartHostapd:
  "writes_of (trace StartHostapd s) =
     (if status_read s = ''running'' then [] else [(''ctl.start'', ''hostapd'')])"
  by (simp add: trace_StartHostapd)

lemma writes_StopHostapd:
  "writes_of (trace StopHostapd s) =
     (if status_read s = [] \<or> status_read s = ''stopped'' then []
      else [(''ctl.stop'', ''hostapd'')])"
  by (simp add: trace_StopHostapd)

lemma status_read_absent:
  "properties s kHostapdFullServiceName = None \<Longrightarrow> status_read s = []"
  by (simp add: status_read_def property_get_def Let_def)

lemma events_StartHostapd:
  "events (snd (StartHostapd s)) = events s @ trace StartHostapd s"
  by (simp add: trace_StartHostapd StartHostapd_eq)

lemma events_StopHostapd:
  "events (snd (StopHostapd s)) = events s @ trace StopHostapd s"
  by (simp add: trace_StopHostapd StopHostapd_eq)

lemma set_result_StartHostapd: "set_result (snd (StartHostapd s)) = set_result s"
  by (simp add: StartHostapd_eq)

lemma set_result_StopHostapd: "set_result (snd (StopHostapd s)) = set_result s"
  by (simp add: StopHostapd_eq)

lemma properties_StartHostapd:
  "properties (snd (StartHostapd s)) =
     (if status_read s \<noteq> ''running'' \<and> set_result s ''ctl.start'' ''hostapd'' = 0
      then (properties s)(''ctl.start'' \<mapsto> ''hostapd'') else properties s)"
  by (simp add: StartHostapd_eq)

lemma properties_StopHostapd:
  "properties (snd (StopHostapd s)) =
     (if status_read s \<noteq> [] \<and> status_read s \<noteq> ''stopped'' \<and>
         set_result s ''ctl.stop'' ''hostapd'' = 0
      then (properties s)(''ctl.stop'' \<mapsto> ''hostapd'') else properties s)"
  by (simp add: StopHostapd_eq)

lemma status_read_cong:
  "properties t kHostapdFullServiceName = properties s kHostapdFullServiceName \<Longrightarrow>
   status_read t = status_read s"
  by (simp add: status_read_def property_get_def Let_def)

subsection \<open>The example platforms\<close>

lemma status_read_platform_with [simp]:
  "status_read (platform_with st rc) = st"
  by (simp add: status_read_def property_get_def platform_with_def Let_def)

lemma status_read_platform_unset [simp]:
  "status_read (platform_unset rc) = []"
  by (simp add: status_read_def property_get_def platform_unset_def Let_def)

lemma set_result_platform_with [simp]:
  "set_result (platform_with st rc) k v = rc"
  by (simp add: platform_with_def)

lemma set_result_platform_unset [simp]:
  "set_result (platform_unset rc) k v = rc"
  by (simp add: platform_unset_def)

section \<open>StopHostapd, forward path\<close>

text \<open>
  C1, as stated, fails: \<^verbatim>\<open>StopHostapd\<close> tests \<^verbatim>\<open>property_set(...) < 0\<close>, so a positive
  reply is not a failure. On a platform whose status is \<open>running\<close> and whose supervisor
  replies 1, the status is neither \<open>stopped\<close> nor empty, the write result is non-zero,
  and the call returns true.
\<close>

theorem StopHostapd_positive_reply_counterexample:
  "status_read (platform_with ''running'' 1) \<noteq> ''stopped'' \<and>
   status_read (platform_with ''running'' 1) \<noteq> '''' \<and>
   \<not> (fst (StopHostapd (platform_with ''running'' 1)) \<longleftrightarrow>
      set_result (platform_with ''running'' 1) ''ctl.stop'' ''hostapd'' = 0)"
  by (simp add: result_StopHostapd word_sless_alt)

text \<open>
  C1 (amended): for every status string other than \<open>stopped\<close> and other than the empty
  string, \<^verbatim>\<open>StopHostapd\<close> issues exactly one control write, of \<open>hostapd\<close> to
  \<open>ctl.stop\<close>, and returns true if and only if the write result is not negative
  (it returns false exactly when the write result is below zero).
\<close>

theorem StopHostapd_forward:
  assumes "status_read s \<noteq> ''stopped''" and "status_read s \<noteq> ''''"
  shows "writes_of (trace StopHostapd s) = [(''ctl.stop'', ''hostapd'')] \<and>
         (fst (StopHostapd s) \<longleftrightarrow> \<not> set_result s ''ctl.stop'' ''hostapd'' <s 0)"
  using assms by (simp add: writes_StopHostapd result_StopHostapd)

theorem StopHostapd_forward_witness:
  "status_read (platform_with ''running'' (- 1)) \<noteq> ''stopped'' \<and>
   status_read (platform_with ''running'' (- 1)) \<noteq> '''' \<and>
   writes_of (trace StopHostapd (platform_with ''running'' (- 1))) =
     [(''ctl.stop'', ''hostapd'')] \<and>
   \<not> fst (StopHostapd (platform_with ''running'' (- 1)))"
proof -
  have h1: "status_read (platform_with ''running'' (- 1)) \<noteq> ''stopped''" by simp
  have h2: "status_read (platform_with ''running'' (- 1)) \<noteq> ''''" by simp
  have rc: "set_result (platform_with ''running'' (- 1)) ''ctl.stop'' ''hostapd'' <s 0"
    by simp
  from StopHostapd_forward [OF h1 h2] rc
  have "writes_of (trace StopHostapd (platform_with ''running'' (- 1))) =
          [(''ctl.stop'', ''hostapd'')] \<and>
        \<not> fst (StopHostapd (platform_with ''running'' (- 1)))"
    by blast
  with h1 h2 show ?thesis by blast
qed

section \<open>StartHostapd, forward path\<close>

text \<open>
  C2: for every status string other than \<open>running\<close> (\<open>stopped\<close>, the empty string and
  every transitioning value included), \<^verbatim>\<open>StartHostapd\<close> issues exactly one control
  write, of \<open>hostapd\<close> to \<open>ctl.start\<close>, and returns true if and only if the write
  result is zero.
\<close>

theorem StartHostapd_forward:
  assumes "status_read s \<noteq> ''running''"
  shows "writes_of (trace StartHostapd s) = [(''ctl.start'', ''hostapd'')] \<and>
         (fst (StartHostapd s) \<longleftrightarrow> set_result s ''ctl.start'' ''hostapd'' = 0)"
  using assms by (simp add: writes_StartHostapd result_StartHostapd)

theorem StartHostapd_forward_witness:
  "status_read (platform_with ''stopped'' 5) \<noteq> ''running'' \<and>
   writes_of (trace StartHostapd (platform_with ''stopped'' 5)) =
     [(''ctl.start'', ''hostapd'')] \<and>
   \<not> fst (StartHostapd (platform_with ''stopped'' 5))"
proof -
  have h: "status_read (platform_with ''stopped'' 5) \<noteq> ''running''" by simp
  have rc: "set_result (platform_with ''stopped'' 5) ''ctl.start'' ''hostapd'' \<noteq> 0"
    by simp
  from StartHostapd_forward [OF h] rc
  have "writes_of (trace StartHostapd (platform_with ''stopped'' 5)) =
          [(''ctl.start'', ''hostapd'')] \<and>
        \<not> fst (StartHostapd (platform_with ''stopped'' 5))"
    by blast
  with h show ?thesis by blast
qed

section \<open>The idempotent paths\<close>

text \<open>
  C3: whenever the status read yields exactly \<open>running\<close>, \<^verbatim>\<open>StartHostapd\<close> returns true
  and issues no control write, whatever the rest of the platform state and whatever the
  supervisor would have replied.
\<close>

theorem StartHostapd_idempotent:
  assumes "status_read s = ''running''"
  shows "fst (StartHostapd s) \<and> writes_of (trace StartHostapd s) = []"
  using assms by (simp add: writes_StartHostapd result_StartHostapd)

theorem StartHostapd_idempotent_witness:
  "status_read (platform_with ''running'' 7) = ''running'' \<and>
   fst (StartHostapd (platform_with ''running'' 7)) \<and>
   writes_of (trace StartHostapd (platform_with ''running'' 7)) = []"
proof -
  have h: "status_read (platform_with ''running'' 7) = ''running''" by simp
  from StartHostapd_idempotent [OF h] h show ?thesis by blast
qed

text \<open>
  C4: whenever the status read yields exactly \<open>stopped\<close> or the empty string, and in
  particular whenever the status property is absent from the store, \<^verbatim>\<open>StopHostapd\<close>
  returns true and issues no control write.
\<close>

theorem StopHostapd_idempotent:
  assumes "status_read s = ''stopped'' \<or> status_read s = '''' \<or>
           properties s kHostapdFullServiceName = None"
  shows "fst (StopHostapd s) \<and> writes_of (trace StopHostapd s) = []"
  using assms status_read_absent [of s]
  by (auto simp add: writes_StopHostapd result_StopHostapd)

theorem StopHostapd_idempotent_witness:
  "properties (platform_unset (- 1)) kHostapdFullServiceName = None \<and>
   fst (StopHostapd (platform_unset (- 1))) \<and>
   writes_of (trace StopHostapd (platform_unset (- 1))) = []"
proof -
  have h: "properties (platform_unset (- 1)) kHostapdFullServiceName = None"
    by (simp add: platform_unset_def)
  then have "status_read (platform_unset (- 1)) = ''stopped'' \<or>
             status_read (platform_unset (- 1)) = '''' \<or>
             properties (platform_unset (- 1)) kHostapdFullServiceName = None"
    by blast
  from StopHostapd_idempotent [OF this] h show ?thesis by blast
qed

section \<open>Invariant: no command for a service already in the requested state\<close>

text \<open>
  C5: \<^verbatim>\<open>StartHostapd\<close> never writes a control command when the status read is
  \<open>running\<close>, and \<^verbatim>\<open>StopHostapd\<close> never writes one when the status read is
  \<open>stopped\<close> or empty: the calls made to the platform then contain no property write,
  whatever its key \<open>k\<close> and value \<open>v\<close>, so in particular none to \<open>ctl.start\<close> or
  \<open>ctl.stop\<close>.
\<close>

theorem no_command_in_terminal_state:
  "(status_read s = ''running'' \<longrightarrow> PropertySet k v \<notin> set (trace StartHostapd s)) \<and>
   (status_read s = ''stopped'' \<or> status_read s = '''' \<longrightarrow>
      PropertySet k v \<notin> set (trace StopHostapd s))"
  by (simp add: trace_StartHostapd trace_StopHostapd)

theorem no_command_in_terminal_state_witness:
  "status_read (platform_with ''running'' 0) = ''running'' \<and>
   PropertySet ''ctl.start'' ''hostapd'' \<notin> set (trace StartHostapd (platform_with ''running'' 0)) \<and>
   status_read (platform_with ''stopped'' 0) = ''stopped'' \<and>
   PropertySet ''ctl.stop'' ''hostapd'' \<notin> set (trace StopHostapd (platform_with ''stopped'' 0))"
proof -
  have h1: "status_read (platform_with ''running'' 0) = ''running''" by simp
  have h2: "status_read (platform_with ''stopped'' 0) = ''stopped''" by simp
  from no_command_in_terminal_state
         [of "platform_with ''running'' 0" "''ctl.start''" "''hostapd''"] h1
  have c1: "PropertySet ''ctl.start'' ''hostapd'' \<notin>
              set (trace StartHostapd (platform_with ''running'' 0))"
    by blast
  from no_command_in_terminal_state
         [of "platform_with ''stopped'' 0" "''ctl.stop''" "''hostapd''"] h2
  have c2: "PropertySet ''ctl.stop'' ''hostapd'' \<notin>
              set (trace StopHostapd (platform_with ''stopped'' 0))"
    by blast
  from h1 h2 c1 c2 show ?thesis by blast
qed

section \<open>Frame: what one call changes\<close>

text \<open>
  C6: for every status and every write result, one call of \<^verbatim>\<open>StartHostapd\<close> or of
  \<^verbatim>\<open>StopHostapd\<close> performs at most one property write. The platform after the call
  is the platform before it, with the calls of this invocation appended to the record
  of calls, and with the store changed at most under the key that was written: the
  supervisor's replies are untouched, and every key \<open>k\<close> that was not written holds
  what it held.
\<close>

theorem at_most_one_write:
  "length (writes_of (trace StartHostapd s)) \<le> 1 \<and>
   length (writes_of (trace StopHostapd s)) \<le> 1 \<and>
   events (snd (StartHostapd s)) = events s @ trace StartHostapd s \<and>
   events (snd (StopHostapd s)) = events s @ trace StopHostapd s \<and>
   set_result (snd (StartHostapd s)) = set_result s \<and>
   set_result (snd (StopHostapd s)) = set_result s \<and>
   (k \<notin> fst ` set (writes_of (trace StartHostapd s)) \<longrightarrow>
      properties (snd (StartHostapd s)) k = properties s k) \<and>
   (k \<notin> fst ` set (writes_of (trace StopHostapd s)) \<longrightarrow>
      properties (snd (StopHostapd s)) k = properties s k)"
  by (simp add: writes_StartHostapd writes_StopHostapd events_StartHostapd
      events_StopHostapd set_result_StartHostapd set_result_StopHostapd
      properties_StartHostapd properties_StopHostapd)

theorem at_most_one_write_witness:
  "''wifi.interface'' \<notin> fst ` set (writes_of (trace StartHostapd platform_busy)) \<and>
   ''wifi.interface'' \<notin> fst ` set (writes_of (trace StopHostapd platform_busy)) \<and>
   length (writes_of (trace StartHostapd platform_busy)) \<le> 1 \<and>
   length (writes_of (trace StopHostapd platform_busy)) \<le> 1 \<and>
   properties (snd (StartHostapd platform_busy)) ''wifi.interface'' = Some ''wlan0'' \<and>
   properties (snd (StopHostapd platform_busy)) ''wifi.interface'' = Some ''wlan0''"
proof -
  have h1: "''wifi.interface'' \<notin> fst ` set (writes_of (trace StartHostapd platform_busy))"
    by (simp add: writes_StartHostapd)
  have h2: "''wifi.interface'' \<notin> fst ` set (writes_of (trace StopHostapd platform_busy))"
    by (simp add: writes_StopHostapd)
  have p: "properties platform_busy ''wifi.interface'' = Some ''wlan0''"
    by (simp add: platform_busy_def kHostapdFullServiceName_def)
  from at_most_one_write [of platform_busy "''wifi.interface''"] h1 h2 p
  show ?thesis by simp
qed

section \<open>The control write\<close>

text \<open>
  C7: a property write made by \<^verbatim>\<open>StartHostapd\<close> is the write of \<open>hostapd\<close> (the
  constant \<^verbatim>\<open>kHostapdServiceName\<close>) to \<open>ctl.start\<close>, and a property write made by
  \<^verbatim>\<open>StopHostapd\<close> is the write of \<open>hostapd\<close> to \<open>ctl.stop\<close>. Scenario B: with the
  status unset and the write accepted, \<^verbatim>\<open>StartHostapd\<close> makes exactly that write and
  returns true. Scenario D: with status \<open>running\<close> and the write failing (a negative
  result), \<^verbatim>\<open>StopHostapd\<close> makes exactly that write and returns false.
\<close>

theorem control_write_pair:
  "(PropertySet k v \<in> set (trace StartHostapd s) \<longrightarrow>
      k = ''ctl.start'' \<and> v = ''hostapd'' \<and> v = kHostapdServiceName) \<and>
   (PropertySet k v \<in> set (trace StopHostapd s) \<longrightarrow>
      k = ''ctl.stop'' \<and> v = ''hostapd'' \<and> v = kHostapdServiceName) \<and>
   (status_read s = '''' \<and> set_result s ''ctl.start'' ''hostapd'' = 0 \<longrightarrow>
      writes_of (trace StartHostapd s) = [(''ctl.start'', ''hostapd'')] \<and>
      fst (StartHostapd s)) \<and>
   (status_read s = ''running'' \<and> set_result s ''ctl.stop'' ''hostapd'' <s 0 \<longrightarrow>
      writes_of (trace StopHostapd s) = [(''ctl.stop'', ''hostapd'')] \<and>
      \<not> fst (StopHostapd s))"
  by (simp add: trace_StartHostapd trace_StopHostapd result_StartHostapd
      result_StopHostapd kHostapdServiceName_def)

theorem control_write_pair_witness:
  "PropertySet ''ctl.start'' ''hostapd'' \<in> set (trace StartHostapd (platform_unset 0)) \<and>
   PropertySet ''ctl.stop'' ''hostapd'' \<in>
     set (trace StopHostapd (platform_with ''running'' (- 1))) \<and>
   ''hostapd'' = kHostapdServiceName \<and>
   status_read (platform_unset 0) = '''' \<and>
   set_result (platform_unset 0) ''ctl.start'' ''hostapd'' = 0 \<and>
   writes_of (trace StartHostapd (platform_unset 0)) = [(''ctl.start'', ''hostapd'')] \<and>
   fst (StartHostapd (platform_unset 0)) \<and>
   status_read (platform_with ''running'' (- 1)) = ''running'' \<and>
   set_result (platform_with ''running'' (- 1)) ''ctl.stop'' ''hostapd'' <s 0 \<and>
   writes_of (trace StopHostapd (platform_with ''running'' (- 1))) =
     [(''ctl.stop'', ''hostapd'')] \<and>
   \<not> fst (StopHostapd (platform_with ''running'' (- 1)))"
proof -
  have m1: "PropertySet ''ctl.start'' ''hostapd'' \<in> set (trace StartHostapd (platform_unset 0))"
    by (simp add: trace_StartHostapd)
  have m2: "PropertySet ''ctl.stop'' ''hostapd'' \<in>
              set (trace StopHostapd (platform_with ''running'' (- 1)))"
    by (simp add: trace_StopHostapd)
  have h1: "status_read (platform_unset 0) = ''''" by simp
  have h2: "set_result (platform_unset 0) ''ctl.start'' ''hostapd'' = 0" by simp
  have h3: "status_read (platform_with ''running'' (- 1)) = ''running''" by simp
  have h4: "set_result (platform_with ''running'' (- 1)) ''ctl.stop'' ''hostapd'' <s 0"
    by simp
  from control_write_pair [of "''ctl.start''" "''hostapd''" "platform_unset 0"] m1 h1 h2
  have c1: "''hostapd'' = kHostapdServiceName \<and>
            writes_of (trace StartHostapd (platform_unset 0)) = [(''ctl.start'', ''hostapd'')] \<and>
            fst (StartHostapd (platform_unset 0))"
    by blast
  from control_write_pair [of "''ctl.stop''" "''hostapd''" "platform_with ''running'' (- 1)"]
    m2 h3 h4
  have c2: "writes_of (trace StopHostapd (platform_with ''running'' (- 1))) =
              [(''ctl.stop'', ''hostapd'')] \<and>
            \<not> fst (StopHostapd (platform_with ''running'' (- 1)))"
    by blast
  from m1 m2 h1 h2 h3 h4 c1 c2 show ?thesis by blast
qed

text \<open>
  C8: neither operation writes the status key \<open>init.svc.hostapd\<close> or any key other
  than its own control key: the keys written by \<^verbatim>\<open>StartHostapd\<close> are among
  \<open>ctl.start\<close>, those written by \<^verbatim>\<open>StopHostapd\<close> are among \<open>ctl.stop\<close>, and after
  either call the store holds under the status key what it held before, so that the
  status reads the same.
\<close>

theorem only_own_control_key:
  "fst ` set (writes_of (trace StartHostapd s)) \<subseteq> {''ctl.start''} \<and>
   fst ` set (writes_of (trace StopHostapd s)) \<subseteq> {''ctl.stop''} \<and>
   kHostapdFullServiceName \<notin> fst ` set (writes_of (trace StartHostapd s)) \<and>
   ''ctl.stop'' \<notin> fst ` set (writes_of (trace StartHostapd s)) \<and>
   kHostapdFullServiceName \<notin> fst ` set (writes_of (trace StopHostapd s)) \<and>
   ''ctl.start'' \<notin> fst ` set (writes_of (trace StopHostapd s)) \<and>
   properties (snd (StartHostapd s)) kHostapdFullServiceName =
     properties s kHostapdFullServiceName \<and>
   properties (snd (StopHostapd s)) kHostapdFullServiceName =
     properties s kHostapdFullServiceName \<and>
   status_read (snd (StartHostapd s)) = status_read s \<and>
   status_read (snd (StopHostapd s)) = status_read s"
proof -
  have a: "properties (snd (StartHostapd s)) kHostapdFullServiceName =
             properties s kHostapdFullServiceName"
    by (simp add: properties_StartHostapd kHostapdFullServiceName_def)
  have b: "properties (snd (StopHostapd s)) kHostapdFullServiceName =
             properties s kHostapdFullServiceName"
    by (simp add: properties_StopHostapd kHostapdFullServiceName_def)
  have c: "fst ` set (writes_of (trace StartHostapd s)) \<subseteq> {''ctl.start''}"
    by (simp add: writes_StartHostapd)
  have d: "fst ` set (writes_of (trace StopHostapd s)) \<subseteq> {''ctl.stop''}"
    by (simp add: writes_StopHostapd)
  have e: "kHostapdFullServiceName \<notin> fst ` set (writes_of (trace StartHostapd s)) \<and>
           ''ctl.stop'' \<notin> fst ` set (writes_of (trace StartHostapd s))"
    by (simp add: writes_StartHostapd kHostapdFullServiceName_def)
  have f: "kHostapdFullServiceName \<notin> fst ` set (writes_of (trace StopHostapd s)) \<and>
           ''ctl.start'' \<notin> fst ` set (writes_of (trace StopHostapd s))"
    by (simp add: writes_StopHostapd kHostapdFullServiceName_def)
  from a b c d e f status_read_cong [OF a] status_read_cong [OF b]
  show ?thesis by blast
qed

theorem only_own_control_key_witness:
  "fst ` set (writes_of (trace StartHostapd (platform_with ''stopped'' 0))) = {''ctl.start''} \<and>
   fst ` set (writes_of (trace StopHostapd (platform_with ''running'' 0))) = {''ctl.stop''} \<and>
   properties (snd (StartHostapd (platform_with ''stopped'' 0))) kHostapdFullServiceName =
     Some ''stopped'' \<and>
   properties (snd (StopHostapd (platform_with ''running'' 0))) kHostapdFullServiceName =
     Some ''running'' \<and>
   status_read (snd (StartHostapd (platform_with ''stopped'' 0))) = ''stopped'' \<and>
   status_read (snd (StopHostapd (platform_with ''running'' 0))) = ''running''"
proof -
  note a = only_own_control_key [of "platform_with ''stopped'' 0"]
  note b = only_own_control_key [of "platform_with ''running'' 0"]
  have n1: "fst ` set (writes_of (trace StartHostapd (platform_with ''stopped'' 0))) \<noteq> {}"
    by (simp add: writes_StartHostapd)
  have n2: "fst ` set (writes_of (trace StopHostapd (platform_with ''running'' 0))) \<noteq> {}"
    by (simp add: writes_StopHostapd)
  from a have k1:
    "fst ` set (writes_of (trace StartHostapd (platform_with ''stopped'' 0))) \<subseteq> {''ctl.start''}"
    by (elim conjE)
  from b have k2:
    "fst ` set (writes_of (trace StopHostapd (platform_with ''running'' 0))) \<subseteq> {''ctl.stop''}"
    by (elim conjE)
  from subset_singletonD [OF k1] n1 have c1:
    "fst ` set (writes_of (trace StartHostapd (platform_with ''stopped'' 0))) = {''ctl.start''}"
    by simp
  from subset_singletonD [OF k2] n2 have c2:
    "fst ` set (writes_of (trace StopHostapd (platform_with ''running'' 0))) = {''ctl.stop''}"
    by simp
  have p1: "properties (platform_with ''stopped'' 0) kHostapdFullServiceName = Some ''stopped''"
    by (simp add: platform_with_def)
  have p2: "properties (platform_with ''running'' 0) kHostapdFullServiceName = Some ''running''"
    by (simp add: platform_with_def)
  from a have x1:
    "properties (snd (StartHostapd (platform_with ''stopped'' 0))) kHostapdFullServiceName =
       properties (platform_with ''stopped'' 0) kHostapdFullServiceName"
    by (elim conjE)
  from b have x2:
    "properties (snd (StopHostapd (platform_with ''running'' 0))) kHostapdFullServiceName =
       properties (platform_with ''running'' 0) kHostapdFullServiceName"
    by (elim conjE)
  from a have y1:
    "status_read (snd (StartHostapd (platform_with ''stopped'' 0))) =
       status_read (platform_with ''stopped'' 0)"
    by (elim conjE)
  from b have y2:
    "status_read (snd (StopHostapd (platform_with ''running'' 0))) =
       status_read (platform_with ''running'' 0)"
    by (elim conjE)
  from c1 c2 x1 x2 y1 y2 p1 p2 show ?thesis by simp
qed

section \<open>Determinism\<close>

text \<open>
  C9: the boolean result and the sequence of property writes of a call depend only on
  what the status read returns and, when the control write is reached, on its result.
  For two platforms \<open>s1\<close> and \<open>s2\<close> that agree on the status read, and on the result
  of the control write whenever the status lets the call reach it, \<^verbatim>\<open>StartHostapd\<close>
  returns the same boolean and makes the same writes on both, and so does
  \<^verbatim>\<open>StopHostapd\<close>; the rest of the store, the replies to other writes and the earlier
  calls play no part.
\<close>

theorem deterministic:
  assumes "status_read s1 = status_read s2"
  shows
    "((status_read s1 \<noteq> ''running'' \<longrightarrow>
         set_result s1 ''ctl.start'' ''hostapd'' = set_result s2 ''ctl.start'' ''hostapd'') \<longrightarrow>
       fst (StartHostapd s1) = fst (StartHostapd s2) \<and>
       writes_of (trace StartHostapd s1) = writes_of (trace StartHostapd s2)) \<and>
     ((status_read s1 \<noteq> ''stopped'' \<and> status_read s1 \<noteq> '''' \<longrightarrow>
         set_result s1 ''ctl.stop'' ''hostapd'' = set_result s2 ''ctl.stop'' ''hostapd'') \<longrightarrow>
       fst (StopHostapd s1) = fst (StopHostapd s2) \<and>
       writes_of (trace StopHostapd s1) = writes_of (trace StopHostapd s2))"
  using assms
  by (auto simp add: writes_StartHostapd writes_StopHostapd result_StartHostapd
      result_StopHostapd)

theorem deterministic_witness:
  "status_read platform_busy = status_read (platform_with ''restarting'' 0) \<and>
   events platform_busy \<noteq> events (platform_with ''restarting'' 0) \<and>
   fst (StartHostapd platform_busy) = fst (StartHostapd (platform_with ''restarting'' 0)) \<and>
   writes_of (trace StartHostapd platform_busy) =
     writes_of (trace StartHostapd (platform_with ''restarting'' 0)) \<and>
   fst (StopHostapd platform_busy) = fst (StopHostapd (platform_with ''restarting'' 0)) \<and>
   writes_of (trace StopHostapd platform_busy) =
     writes_of (trace StopHostapd (platform_with ''restarting'' 0))"
proof -
  have st: "status_read platform_busy = ''restarting''"
    by (simp add: status_read_def property_get_def platform_busy_def Let_def
        kHostapdFullServiceName_def)
  then have h: "status_read platform_busy = status_read (platform_with ''restarting'' 0)"
    by simp
  have ev: "events platform_busy \<noteq> events (platform_with ''restarting'' 0)"
    by (simp add: platform_busy_def platform_with_def)
  have r1: "set_result platform_busy ''ctl.start'' ''hostapd'' =
            set_result (platform_with ''restarting'' 0) ''ctl.start'' ''hostapd''"
    by (simp add: platform_busy_def)
  have r2: "set_result platform_busy ''ctl.stop'' ''hostapd'' =
            set_result (platform_with ''restarting'' 0) ''ctl.stop'' ''hostapd''"
    by (simp add: platform_busy_def)
  from deterministic [OF h] r1 r2
  have "fst (StartHostapd platform_busy) =
          fst (StartHostapd (platform_with ''restarting'' 0)) \<and>
        writes_of (trace StartHostapd platform_busy) =
          writes_of (trace StartHostapd (platform_with ''restarting'' 0)) \<and>
        fst (StopHostapd platform_busy) =
          fst (StopHostapd (platform_with ''restarting'' 0)) \<and>
        writes_of (trace StopHostapd platform_busy) =
          writes_of (trace StopHostapd (platform_with ''restarting'' 0))"
    by blast
  with h ev show ?thesis by blast
qed

section \<open>The status read\<close>

text \<open>
  C10: every call of \<^verbatim>\<open>StartHostapd\<close> and of \<^verbatim>\<open>StopHostapd\<close> performs exactly one
  property read, of the status key \<open>init.svc.hostapd\<close> (the constant
  \<^verbatim>\<open>kHostapdFullServiceName\<close>) with the empty string as default, and no property
  write of the call comes before it: the calls made split into a part \<open>pre\<close> without
  any write, the read, and the rest.
\<close>

theorem one_status_read_first:
  "reads_of (trace StartHostapd s) = [(''init.svc.hostapd'', '''')] \<and>
   reads_of (trace StopHostapd s) = [(''init.svc.hostapd'', '''')] \<and>
   kHostapdFullServiceName = ''init.svc.hostapd'' \<and>
   (\<exists>pre post. trace StartHostapd s = pre @ PropertyGet ''init.svc.hostapd'' '''' # post \<and>
      writes_of pre = []) \<and>
   (\<exists>pre post. trace StopHostapd s = pre @ PropertyGet ''init.svc.hostapd'' '''' # post \<and>
      writes_of pre = [])"
proof -
  have a: "reads_of (trace StartHostapd s) = [(''init.svc.hostapd'', '''')]"
    by (simp add: trace_StartHostapd)
  have b: "reads_of (trace StopHostapd s) = [(''init.svc.hostapd'', '''')]"
    by (simp add: trace_StopHostapd)
  have "\<exists>post. trace StartHostapd s = [] @ PropertyGet ''init.svc.hostapd'' '''' # post"
    by (simp add: trace_StartHostapd)
  then have c: "\<exists>pre post. trace StartHostapd s =
                   pre @ PropertyGet ''init.svc.hostapd'' '''' # post \<and> writes_of pre = []"
    using writes_of.simps(1) by blast
  have "\<exists>post. trace StopHostapd s =
           [Log DEBUG ''Stopping the SoftAP service...''] @
           PropertyGet ''init.svc.hostapd'' '''' # post"
    by (simp add: trace_StopHostapd)
  moreover have "writes_of [Log DEBUG ''Stopping the SoftAP service...''] = []"
    by simp
  ultimately have d: "\<exists>pre post. trace StopHostapd s =
                   pre @ PropertyGet ''init.svc.hostapd'' '''' # post \<and> writes_of pre = []"
    by blast
  from a b c d show ?thesis by (simp add: kHostapdFullServiceName_def)
qed

theorem one_status_read_first_witness:
  "reads_of (trace StartHostapd (platform_unset 0)) = [(''init.svc.hostapd'', '''')] \<and>
   reads_of (trace StopHostapd (platform_unset 0)) = [(''init.svc.hostapd'', '''')]"
proof -
  note a = one_status_read_first [of "platform_unset 0"]
  from a have r1: "reads_of (trace StartHostapd (platform_unset 0)) = [(''init.svc.hostapd'', '''')]"
    by (elim conjE)
  from a have r2: "reads_of (trace StopHostapd (platform_unset 0)) = [(''init.svc.hostapd'', '''')]"
    by (elim conjE)
  from r1 r2 show ?thesis by (rule conjI)
qed

end
